theory Spec2Isabelle
  imports Complex_Main "HOL-Library.Multiset"
begin

section \<open>Data model (internal/clients and internal/service)\<close>

text \<open>
  A Go \<open>float64\<close> that is finite is represented by the rational number it denotes.
  Quantities are decoded from JSON and only copied; the one place where the service
  computes with floats is the coverage percentage, whose operations are rounded by
  \<open>fl64\<close> below.
\<close>

type_synonym float64 = rat

record RecipeIngredient =
  ri_ID :: string
  ri_IngredientID :: string
  ri_Quantity :: float64
  ri_Unit :: string
  ri_IsOptional :: bool

record Recipe =
  rc_ID :: string
  rc_Title :: string
  rc_Tags :: "string list"
  rc_PrepMinutes :: int
  rc_CookMinutes :: int
  rc_Ingredients :: "RecipeIngredient list"

record PantryItem =
  pi_ID :: string
  pi_IngredientID :: string
  pi_Quantity :: float64
  pi_Unit :: string

record IngredientDetail =
  idt_ID :: string
  idt_Name :: string

record IngredientSubstitute =
  sub_IngredientID :: string
  sub_SubstituteID :: string
  sub_Ratio :: float64
  sub_Notes :: string

record MissingIngredient =
  mi_IngredientID :: string
  mi_Name :: string
  mi_Quantity :: float64
  mi_Unit :: string

record MatchResult =
  mr_Recipe :: Recipe
  mr_CoveragePct :: float64
  mr_MissingIngredients :: "MissingIngredient list"
  mr_CanMake :: bool

section \<open>Go maps\<close>

text \<open>
  \<open>map[string]bool\<close>: reading a key that is absent yields \<open>false\<close>.
  \<open>map[string][]IngredientSubstitute\<close>: reading an absent key yields the nil slice,
  over which \<open>range\<close> iterates zero times.
\<close>

type_synonym pantrySet = "string \<rightharpoonup> bool"
type_synonym subsMap = "string \<rightharpoonup> IngredientSubstitute list"

definition inPantry :: "pantrySet \<Rightarrow> string \<Rightarrow> bool" where
  "inPantry pantry k = (case pantry k of None \<Rightarrow> False | Some b \<Rightarrow> b)"

definition subsFor :: "subsMap \<Rightarrow> string \<Rightarrow> IngredientSubstitute list" where
  "subsFor subs k = (case subs k of None \<Rightarrow> [] | Some l \<Rightarrow> l)"

section \<open>binary64 rounding\<close>

text \<open>
  Round to nearest, ties to even, with a 53-bit significand. The exponent range is
  not bounded: the scorer only rounds 0 and values between \<open>2\<^sup>-\<^sup>6\<^sup>3\<close> and 100,
  which are far from overflow and from the subnormal range.
\<close>

fun bitlen :: "nat \<Rightarrow> nat" where
  "bitlen n = (if n = 0 then 0 else Suc (bitlen (n div 2)))"

definition pow2 :: "int \<Rightarrow> rat" where
  "pow2 e = (if 0 \<le> e then 2 ^ nat e else 1 / 2 ^ nat (- e))"

definition ilog2 :: "rat \<Rightarrow> int" where
  "ilog2 q = (case quotient_of q of (a, b) \<Rightarrow>
     (let d = int (bitlen (nat a)) - int (bitlen (nat b))
      in if pow2 d \<le> q then d else d - 1))"

definition roundHalfEven :: "rat \<Rightarrow> int" where
  "roundHalfEven q = (let f = \<lfloor>q\<rfloor>; r = q - of_int f
     in if r < 1 / 2 then f
        else if 1 / 2 < r then f + 1
        else if even f then f else f + 1)"

definition fl64 :: "rat \<Rightarrow> float64" where
  "fl64 q = (if q = 0 then 0
     else let a = \<bar>q\<bar>; e = ilog2 a - 52
          in sgn q * of_int (roundHalfEven (a / pow2 e)) * pow2 e)"

definition f64_of_int :: "nat \<Rightarrow> float64" where
  "f64_of_int n = fl64 (of_nat n)"

definition f64_div :: "float64 \<Rightarrow> float64 \<Rightarrow> float64" where
  "f64_div x y = fl64 (x / y)"

definition f64_mul :: "float64 \<Rightarrow> float64 \<Rightarrow> float64" where
  "f64_mul x y = fl64 (x * y)"

section \<open>scoreRecipe (internal/service)\<close>

text \<open>The first loop: the ingredients that are not optional, in recipe order.\<close>

fun requiredOf :: "RecipeIngredient list \<Rightarrow> RecipeIngredient list" where
  "requiredOf [] = []"
| "requiredOf (ing # rest) =
     (if \<not> ri_IsOptional ing then ing # requiredOf rest else requiredOf rest)"

text \<open>
  The inner loop over \<open>subsMap[ing.IngredientID]\<close>, with its \<open>break\<close>: the state is
  \<open>(matched, foundSub)\<close>.
\<close>

fun scanSubs :: "pantrySet \<Rightarrow> IngredientSubstitute list \<Rightarrow> nat \<Rightarrow> nat \<times> bool" where
  "scanSubs pantry [] matched = (matched, False)"
| "scanSubs pantry (sub # rest) matched =
     (if inPantry pantry (sub_SubstituteID sub) then (matched + 1, True)
      else scanSubs pantry rest matched)"

text \<open>The loop over \<open>required\<close>: the state is \<open>(missing, matched)\<close>.\<close>

fun scoreLoop ::
  "pantrySet \<Rightarrow> subsMap \<Rightarrow> RecipeIngredient list \<Rightarrow> MissingIngredient list \<times> nat
   \<Rightarrow> MissingIngredient list \<times> nat" where
  "scoreLoop pantry subs [] (missing, matched) = (missing, matched)"
| "scoreLoop pantry subs (ing # rest) (missing, matched) =
     (if inPantry pantry (ri_IngredientID ing)
      then scoreLoop pantry subs rest (missing, matched + 1)
      else (case scanSubs pantry (subsFor subs (ri_IngredientID ing)) matched of
              (matched', foundSub) \<Rightarrow>
                if \<not> foundSub
                then scoreLoop pantry subs rest
                       (missing @ [\<lparr>mi_IngredientID = ri_IngredientID ing, mi_Name = [],
                                    mi_Quantity = ri_Quantity ing, mi_Unit = ri_Unit ing\<rparr>],
                        matched')
                else scoreLoop pantry subs rest (missing, matched')))"

definition scoreRecipe :: "Recipe \<Rightarrow> pantrySet \<Rightarrow> subsMap \<Rightarrow> int \<Rightarrow> MatchResult" where
  "scoreRecipe recipe pantry subs maxMissing =
     (let required = requiredOf (rc_Ingredients recipe)
      in if length required = 0
         then \<lparr>mr_Recipe = recipe, mr_CoveragePct = 100, mr_MissingIngredients = [],
               mr_CanMake = True\<rparr>
         else (case scoreLoop pantry subs required ([], 0) of
                 (missing, matched) \<Rightarrow>
                   \<lparr>mr_Recipe = recipe,
                    mr_CoveragePct =
                      f64_mul (f64_div (f64_of_int matched) (f64_of_int (length required))) 100,
                    mr_MissingIngredients = missing,
                    mr_CanMake = (int (length missing) \<le> maxMissing)\<rparr>))"

section \<open>Upstream services (internal/clients)\<close>

text \<open>
  What the three HTTP clients return during one request. A Go result \<open>(v, err)\<close> with
  \<open>err != nil\<close> is \<open>Inl\<close> of the error's message; \<open>(nil, nil)\<close> is \<open>Inr None\<close>.
  Every id is looked up at most once per phase, so the answers of the dictionary are a
  function of the id.
\<close>

record Upstream =
  GetPantry :: "string + PantryItem list"
  GetRecipes :: "string + Recipe list"
  GetSubstitutes :: "string \<Rightarrow> string + IngredientSubstitute list option"
  GetIngredient :: "string \<Rightarrow> string + IngredientDetail option"

section \<open>sort.Slice\<close>

text \<open>
  \<open>sort.Slice\<close> is Go's standard library, and it is not stable. Score takes the sorter as
  a parameter; \<open>sortSliceSpec\<close> is what the library documents: the result is a
  rearrangement of the input, and for a \<open>less\<close> that is a transitive ordering no element
  is less than one placed before it.
\<close>

type_synonym sorter = "(MatchResult \<Rightarrow> MatchResult \<Rightarrow> bool) \<Rightarrow> MatchResult list \<Rightarrow> MatchResult list"

definition transitiveOrdering :: "('a \<Rightarrow> 'a \<Rightarrow> bool) \<Rightarrow> bool" where
  "transitiveOrdering lt =
     ((\<forall>a. \<not> lt a a) \<and>
      (\<forall>a b c. lt a b \<and> lt b c \<longrightarrow> lt a c) \<and>
      (\<forall>a b c. \<not> lt a b \<and> \<not> lt b c \<longrightarrow> \<not> lt a c))"

definition sortSliceSpec :: "sorter \<Rightarrow> bool" where
  "sortSliceSpec srt =
     (\<forall>lt xs. mset (srt lt xs) = mset xs \<and>
        (transitiveOrdering lt \<longrightarrow> sorted_wrt (\<lambda>a b. \<not> lt b a) (srt lt xs)))"

text \<open>An insertion sort, as one sorter that meets \<open>sortSliceSpec\<close>.\<close>

fun insertBy :: "('a \<Rightarrow> 'a \<Rightarrow> bool) \<Rightarrow> 'a \<Rightarrow> 'a list \<Rightarrow> 'a list" where
  "insertBy lt x [] = [x]"
| "insertBy lt x (y # ys) = (if lt x y then x # y # ys else y # insertBy lt x ys)"

fun insertionSort :: "('a \<Rightarrow> 'a \<Rightarrow> bool) \<Rightarrow> 'a list \<Rightarrow> 'a list" where
  "insertionSort lt [] = []"
| "insertionSort lt (x # xs) = insertBy lt x (insertionSort lt xs)"

section \<open>Score (internal/service)\<close>

text \<open>Build the presence set: \<open>pantrySet[item.IngredientID] = true\<close> for every item.\<close>

fun buildPantrySet :: "PantryItem list \<Rightarrow> pantrySet \<Rightarrow> pantrySet" where
  "buildPantrySet [] pantry = pantry"
| "buildPantrySet (item # rest) pantry =
     buildPantrySet rest (pantry(pi_IngredientID item \<mapsto> True))"

text \<open>
  \<open>missingIDs\<close> and \<open>seen\<close> are maps used as sets of keys: only membership and
  emptiness are read.
\<close>

fun missingIDsOfIngredients :: "pantrySet \<Rightarrow> RecipeIngredient list \<Rightarrow> string set \<Rightarrow> string set" where
  "missingIDsOfIngredients pantry [] ids = ids"
| "missingIDsOfIngredients pantry (ing # rest) ids =
     (if \<not> ri_IsOptional ing \<and> \<not> inPantry pantry (ri_IngredientID ing)
      then missingIDsOfIngredients pantry rest (insert (ri_IngredientID ing) ids)
      else missingIDsOfIngredients pantry rest ids)"

fun missingIDsOf :: "pantrySet \<Rightarrow> Recipe list \<Rightarrow> string set \<Rightarrow> string set" where
  "missingIDsOf pantry [] ids = ids"
| "missingIDsOf pantry (recipe # rest) ids =
     missingIDsOf pantry rest (missingIDsOfIngredients pantry (rc_Ingredients recipe) ids)"

text \<open>
  One lookup per id of \<open>missingIDs\<close>; a lookup that fails or returns nil writes nothing.
  Every goroutine writes its own key under the mutex, so the map after \<open>wg.Wait()\<close>
  does not depend on the interleaving.
\<close>

definition prefetchSubs :: "Upstream \<Rightarrow> string set \<Rightarrow> subsMap" where
  "prefetchSubs up missingIDs =
     (\<lambda>ingredientID.
        if ingredientID \<in> missingIDs
        then (case GetSubstitutes up ingredientID of
                Inl err \<Rightarrow> None
              | Inr None \<Rightarrow> None
              | Inr (Some subs) \<Rightarrow> Some subs)
        else None)"

definition lessResult :: "MatchResult \<Rightarrow> MatchResult \<Rightarrow> bool" where
  "lessResult ri rj =
     (if mr_CoveragePct ri \<noteq> mr_CoveragePct rj then mr_CoveragePct ri > mr_CoveragePct rj
      else length (mr_MissingIngredients ri) < length (mr_MissingIngredients rj))"

fun filterCanMake :: "MatchResult list \<Rightarrow> MatchResult list" where
  "filterCanMake [] = []"
| "filterCanMake (r # rest) = (if mr_CanMake r then r # filterCanMake rest else filterCanMake rest)"

text \<open>The rank-and-filter step of Score: sort, then keep the makeable results.\<close>

definition rankAndFilter :: "sorter \<Rightarrow> MatchResult list \<Rightarrow> MatchResult list" where
  "rankAndFilter srt results = filterCanMake (srt lessResult results)"

section \<open>resolveNames\<close>

fun seenOfMissing :: "MissingIngredient list \<Rightarrow> string set \<Rightarrow> string set" where
  "seenOfMissing [] seen = seen"
| "seenOfMissing (m # rest) seen = seenOfMissing rest (insert (mi_IngredientID m) seen)"

fun seenOf :: "MatchResult list \<Rightarrow> string set \<Rightarrow> string set" where
  "seenOf [] seen = seen"
| "seenOf (r # rest) seen = seenOf rest (seenOfMissing (mr_MissingIngredients r) seen)"

definition fetchNames :: "Upstream \<Rightarrow> string set \<Rightarrow> (string \<rightharpoonup> string)" where
  "fetchNames up seen =
     (\<lambda>ingredientID.
        if ingredientID \<in> seen
        then (case GetIngredient up ingredientID of
                Inl err \<Rightarrow> None
              | Inr None \<Rightarrow> None
              | Inr (Some detail) \<Rightarrow> Some (idt_Name detail))
        else None)"

definition setName :: "(string \<rightharpoonup> string) \<Rightarrow> MissingIngredient \<Rightarrow> MissingIngredient" where
  "setName nameMap m =
     (case nameMap (mi_IngredientID m) of
        Some name \<Rightarrow> m\<lparr>mi_Name := name\<rparr>
      | None \<Rightarrow> m)"

definition setNames :: "(string \<rightharpoonup> string) \<Rightarrow> MatchResult \<Rightarrow> MatchResult" where
  "setNames nameMap r =
     r\<lparr>mr_MissingIngredients := map (setName nameMap) (mr_MissingIngredients r)\<rparr>"

text \<open>The slice is updated in place; the model returns the updated list.\<close>

definition resolveNames :: "Upstream \<Rightarrow> MatchResult list \<Rightarrow> MatchResult list" where
  "resolveNames up results =
     (let seen = seenOf results {}
      in if seen = {} then results
         else map (setNames (fetchNames up seen)) results)"

text \<open>Score returns the pair \<open>(results, err)\<close>; \<open>None\<close> is Go's nil.\<close>

definition Score :: "sorter \<Rightarrow> Upstream \<Rightarrow> bool \<Rightarrow> int \<Rightarrow> MatchResult list option \<times> string option" where
  "Score srt up allowSubs maxMissing =
     (case GetPantry up of
        Inl err \<Rightarrow> (None, Some (''fetch pantry: '' @ err))
      | Inr pantryItems \<Rightarrow>
          (case GetRecipes up of
             Inl err \<Rightarrow> (None, Some (''fetch recipes: '' @ err))
           | Inr recipes \<Rightarrow>
               (let pantrySet = buildPantrySet pantryItems Map.empty;
                    subsMap = (if allowSubs
                               then prefetchSubs up (missingIDsOf pantrySet recipes {})
                               else Map.empty);
                    results = map (\<lambda>recipe. scoreRecipe recipe pantrySet subsMap maxMissing) recipes;
                    filtered = rankAndFilter srt results
                in (Some (resolveNames up filtered), None))))"

section \<open>HTTP handlers (internal/api)\<close>

datatype response = JsonError string nat | JsonOK "MatchResult list"

record matchQueryRequest =
  mq_Prompt :: string
  mq_PantryConstrained :: bool
  mq_MaxMissing :: int

text \<open>
  What both handlers do with the pair returned by Score: \<open>jsonError\<close> with status 502
  when \<open>err != nil\<close>, \<open>jsonOK\<close> otherwise.
\<close>

definition scoreResponse :: "MatchResult list option \<times> string option \<Rightarrow> response" where
  "scoreResponse ret =
     (case ret of
        (results, Some err) \<Rightarrow> JsonError (''scoring failed: '' @ err) 502
      | (results, None) \<Rightarrow> JsonOK (case results of None \<Rightarrow> [] | Some rs \<Rightarrow> rs))"

text \<open>
  \<open>handleGetMatches\<close>: the two query parameters are strings (empty when absent);
  \<open>strconv.Atoi\<close> is a parameter, \<open>None\<close> when it returns an error.
\<close>

definition handleGetMatches ::
  "(string \<Rightarrow> int option) \<Rightarrow> sorter \<Rightarrow> Upstream \<Rightarrow> string \<Rightarrow> string \<Rightarrow> response" where
  "handleGetMatches atoi srt up allow_subs max_missing =
     (let allowSubs = (allow_subs = ''true'');
          parsed = (if max_missing \<noteq> []
                    then (case atoi max_missing of
                            None \<Rightarrow> None
                          | Some n \<Rightarrow> if n < 0 then None else Some n)
                    else Some 0)
      in case parsed of
           None \<Rightarrow> JsonError ''max_missing must be a non-negative integer'' 400
         | Some maxMissing \<Rightarrow>
             scoreResponse (Score srt up allowSubs maxMissing))"

text \<open>
  \<open>handlePostMatchQuery\<close>: the decoded body, \<open>None\<close> when decoding fails.
\<close>

definition handlePostMatchQuery :: "sorter \<Rightarrow> Upstream \<Rightarrow> matchQueryRequest option \<Rightarrow> response" where
  "handlePostMatchQuery srt up body =
     (case body of
        None \<Rightarrow> JsonError ''invalid request body'' 400
      | Some req \<Rightarrow>
          (let maxMissing = (if mq_MaxMissing req < 0 then 0 else mq_MaxMissing req)
           in scoreResponse (Score srt up False maxMissing)))"

section \<open>Notions used to state the properties\<close>

definition toMissing :: "RecipeIngredient \<Rightarrow> MissingIngredient" where
  "toMissing ing = \<lparr>mi_IngredientID = ri_IngredientID ing, mi_Name = [],
                    mi_Quantity = ri_Quantity ing, mi_Unit = ri_Unit ing\<rparr>"

definition hasSubstitute :: "pantrySet \<Rightarrow> subsMap \<Rightarrow> string \<Rightarrow> bool" where
  "hasSubstitute pantry subs k =
     (\<exists>s \<in> set (subsFor subs k). inPantry pantry (sub_SubstituteID s))"

definition covered :: "pantrySet \<Rightarrow> subsMap \<Rightarrow> RecipeIngredient \<Rightarrow> bool" where
  "covered pantry subs ing =
     (inPantry pantry (ri_IngredientID ing) \<or> hasSubstitute pantry subs (ri_IngredientID ing))"

definition isRequired :: "RecipeIngredient \<Rightarrow> bool" where
  "isRequired ing = (\<not> ri_IsOptional ing)"

text \<open>
  The value the specification gives for the coverage: \<open>100.0 * matched / total\<close>,
  multiplication first.
\<close>

definition specCoveragePct :: "nat \<Rightarrow> nat \<Rightarrow> float64" where
  "specCoveragePct matched n = f64_div (f64_mul 100 (f64_of_int matched)) (f64_of_int n)"

text \<open>The value the code computes: \<open>float64(matched) / float64(total) * 100.0\<close>.\<close>

definition codeCoveragePct :: "nat \<Rightarrow> nat \<Rightarrow> float64" where
  "codeCoveragePct matched n = f64_mul (f64_div (f64_of_int matched) (f64_of_int n)) 100"

section \<open>Sample data\<close>

definition ingredient :: "string \<Rightarrow> float64 \<Rightarrow> string \<Rightarrow> bool \<Rightarrow> RecipeIngredient" where
  "ingredient k q u opt =
     \<lparr>ri_ID = ''ri-'' @ k, ri_IngredientID = k, ri_Quantity = q, ri_Unit = u, ri_IsOptional = opt\<rparr>"

definition recipeOf :: "string \<Rightarrow> RecipeIngredient list \<Rightarrow> Recipe" where
  "recipeOf t ings =
     \<lparr>rc_ID = ''rc-'' @ t, rc_Title = t, rc_Tags = [], rc_PrepMinutes = 10, rc_CookMinutes = 20,
      rc_Ingredients = ings\<rparr>"

definition exBread :: Recipe where
  "exBread = recipeOf ''bread''
     [ingredient ''flour'' 500 ''g'' False, ingredient ''yeast'' 7 ''g'' False,
      ingredient ''butter'' 50 ''g'' False, ingredient ''garlic'' 1 ''clove'' True]"

definition exDouble :: Recipe where
  "exDouble = recipeOf ''double''
     [ingredient ''flour'' 500 ''g'' False, ingredient ''yeast'' 7 ''g'' False,
      ingredient ''yeast'' 3 ''g'' False]"

definition exGarnish :: Recipe where
  "exGarnish = recipeOf ''garnish'' [ingredient ''garlic'' 1 ''clove'' True]"

definition exToast :: Recipe where
  "exToast = recipeOf ''toast'' [ingredient ''flour'' 100 ''g'' False]"

definition exPantryItems :: "PantryItem list" where
  "exPantryItems =
     [\<lparr>pi_ID = ''p1'', pi_IngredientID = ''flour'', pi_Quantity = 0, pi_Unit = ''g''\<rparr>,
      \<lparr>pi_ID = ''p2'', pi_IngredientID = ''margarine'', pi_Quantity = - 1, pi_Unit = ''g''\<rparr>]"

definition exPantry :: pantrySet where
  "exPantry = [''flour'' \<mapsto> True, ''margarine'' \<mapsto> True]"

definition substitute :: "string \<Rightarrow> string \<Rightarrow> float64 \<Rightarrow> string \<Rightarrow> IngredientSubstitute" where
  "substitute k s r n =
     \<lparr>sub_IngredientID = k, sub_SubstituteID = s, sub_Ratio = r, sub_Notes = n\<rparr>"

definition exButterSubs :: "IngredientSubstitute list" where
  "exButterSubs =
     [substitute ''butter'' ''lard'' 1 [], substitute ''butter'' ''margarine'' 1 ''salted'',
      substitute ''butter'' ''flour'' 2 []]"

definition exSubs :: subsMap where
  "exSubs = [''butter'' \<mapsto> exButterSubs]"

definition exSubs2 :: subsMap where
  "exSubs2 = [''butter'' \<mapsto> map (\<lambda>s. s\<lparr>sub_Ratio := 3, sub_Notes := ''x''\<rparr>) exButterSubs]"

section \<open>The two loops of scoreRecipe\<close>

lemma requiredOf_filter: "requiredOf xs = filter isRequired xs"
  by (induction xs) (simp_all add: isRequired_def)

lemma scanSubs_eq:
  "scanSubs pantry ss m =
     (if \<exists>s \<in> set ss. inPantry pantry (sub_SubstituteID s) then (m + 1, True) else (m, False))"
  by (induction ss) simp_all

lemma scoreLoop_eq:
  "scoreLoop pantry subs req (missing, matched) =
     (missing @ map toMissing (filter (\<lambda>i. \<not> covered pantry subs i) req),
      matched + length (filter (covered pantry subs) req))"
proof (induction req arbitrary: missing matched)
  case Nil
  show ?case by simp
next
  case (Cons ing rest)
  show ?case
    by (simp add: Cons.IH scanSubs_eq covered_def hasSubstitute_def toMissing_def)
qed

lemma scoreRecipe_missing:
  "mr_MissingIngredients (scoreRecipe recipe pantry subs maxMissing) =
     map toMissing (filter (\<lambda>i. \<not> covered pantry subs i) (requiredOf (rc_Ingredients recipe)))"
  by (simp add: scoreRecipe_def Let_def scoreLoop_eq)

lemma scoreRecipe_coverage:
  "mr_CoveragePct (scoreRecipe recipe pantry subs maxMissing) =
     (if requiredOf (rc_Ingredients recipe) = [] then 100
      else codeCoveragePct
             (length (filter (covered pantry subs) (requiredOf (rc_Ingredients recipe))))
             (length (requiredOf (rc_Ingredients recipe))))"
  by (simp add: scoreRecipe_def Let_def scoreLoop_eq codeCoveragePct_def)

lemma scoreRecipe_canMake:
  "mr_CanMake (scoreRecipe recipe pantry subs maxMissing) =
     (requiredOf (rc_Ingredients recipe) = [] \<or>
      int (length (mr_MissingIngredients (scoreRecipe recipe pantry subs maxMissing))) \<le> maxMissing)"
  by (simp add: scoreRecipe_def Let_def scoreLoop_eq)

lemma scoreRecipe_recipe: "mr_Recipe (scoreRecipe recipe pantry subs maxMissing) = recipe"
  by (simp add: scoreRecipe_def Let_def scoreLoop_eq)

lemma exPantry_has:
  "inPantry exPantry ''flour''" "inPantry exPantry ''margarine''"
  "\<not> inPantry exPantry ''yeast''" "\<not> inPantry exPantry ''butter''"
  "\<not> inPantry exPantry ''garlic''" "\<not> inPantry exPantry ''lard''"
  by (simp_all add: inPantry_def exPantry_def)

lemma exSubs_for: "subsFor exSubs k = (if k = ''butter'' then exButterSubs else [])"
  by (simp add: subsFor_def exSubs_def)

lemma exButterSubs_ex: "list_ex (\<lambda>s. inPantry exPantry (sub_SubstituteID s)) exButterSubs"
  by (simp add: exButterSubs_def substitute_def exPantry_has)

lemma exButterSubs_has:
  "\<exists>s \<in> set exButterSubs. inPantry exPantry (sub_SubstituteID s)"
  "\<not> (\<forall>s \<in> set exButterSubs. \<not> inPantry exPantry (sub_SubstituteID s))"
  "\<exists>s. s \<in> set exButterSubs \<and> inPantry exPantry (sub_SubstituteID s)"
  using exButterSubs_ex by (auto simp add: list_ex_iff)

lemma empty_has: "inPantry Map.empty k = False"
  by (simp add: inPantry_def)

lemma empty_for: "subsFor Map.empty k = []"
  by (simp add: subsFor_def)

lemmas ex_defs = ingredient_def recipeOf_def exBread_def exDouble_def exGarnish_def exToast_def
  exPantryItems_def exPantry_has exSubs_for exButterSubs_has empty_has empty_for

section \<open>Properties of scoreRecipe\<close>

text \<open>
  C1. The missingIngredients list of scoreRecipe holds exactly the required
  ingredients whose ingredientId is not in the pantry set and none of whose substitutes
  has its substituteId in the pantry set, each with the ingredient's id, quantity and
  unit and an empty name, in recipe-ingredient order; optional ingredients are never
  listed. (It holds for every recipe, so in particular for those with at least one
  required ingredient.)
\<close>

theorem scoreRecipe_missing_exact:
  "mr_MissingIngredients (scoreRecipe recipe pantry subs maxMissing) =
     map (\<lambda>ing. \<lparr>mi_IngredientID = ri_IngredientID ing, mi_Name = [],
                  mi_Quantity = ri_Quantity ing, mi_Unit = ri_Unit ing\<rparr>)
       (filter (\<lambda>ing. \<not> ri_IsOptional ing \<and>
                       \<not> inPantry pantry (ri_IngredientID ing) \<and>
                       \<not> (\<exists>s \<in> set (subsFor subs (ri_IngredientID ing)).
                            inPantry pantry (sub_SubstituteID s)))
          (rc_Ingredients recipe))"
proof -
  have "(\<lambda>i. isRequired i \<and> \<not> covered pantry subs i) =
        (\<lambda>ing. \<not> ri_IsOptional ing \<and> \<not> inPantry pantry (ri_IngredientID ing) \<and>
                \<not> (\<exists>s \<in> set (subsFor subs (ri_IngredientID ing)).
                     inPantry pantry (sub_SubstituteID s)))"
    by (auto simp: covered_def hasSubstitute_def isRequired_def)
  moreover have "toMissing = (\<lambda>ing. \<lparr>mi_IngredientID = ri_IngredientID ing, mi_Name = [],
                  mi_Quantity = ri_Quantity ing, mi_Unit = ri_Unit ing\<rparr>)"
    by (rule ext) (simp add: toMissing_def)
  ultimately show ?thesis
    by (simp add: scoreRecipe_missing requiredOf_filter)
qed

theorem scoreRecipe_missing_exact_witness:
  "requiredOf (rc_Ingredients exBread) \<noteq> [] \<and>
   mr_MissingIngredients (scoreRecipe exBread exPantry exSubs 1) =
     [\<lparr>mi_IngredientID = ''yeast'', mi_Name = [], mi_Quantity = 7, mi_Unit = ''g''\<rparr>]"
proof -
  note h = scoreRecipe_missing_exact [of exBread exPantry exSubs 1]
  show ?thesis
    unfolding h by (simp add: ex_defs)
qed

text \<open>
  C5. A recipe with no required ingredient (all optional, or none at all) gets
  coveragePct exactly 100.0, an empty missingIngredients and canMake = true, for every
  pantry set, substitute map and maxMissing.
\<close>

theorem scoreRecipe_no_required:
  assumes "\<forall>ing \<in> set (rc_Ingredients recipe). ri_IsOptional ing"
  shows "mr_CoveragePct (scoreRecipe recipe pantry subs maxMissing) = 100 \<and>
         mr_MissingIngredients (scoreRecipe recipe pantry subs maxMissing) = [] \<and>
         mr_CanMake (scoreRecipe recipe pantry subs maxMissing)"
proof -
  from assms have "requiredOf (rc_Ingredients recipe) = []"
    by (simp add: requiredOf_filter isRequired_def)
  then show ?thesis
    by (simp add: scoreRecipe_def)
qed

theorem scoreRecipe_no_required_witness:
  "list_all ri_IsOptional (rc_Ingredients exGarnish) \<and>
   mr_CoveragePct (scoreRecipe exGarnish Map.empty exSubs (- 3)) = 100 \<and>
   mr_MissingIngredients (scoreRecipe exGarnish Map.empty exSubs (- 3)) = [] \<and>
   mr_CanMake (scoreRecipe exGarnish Map.empty exSubs (- 3))"
proof -
  have h: "\<forall>ing \<in> set (rc_Ingredients exGarnish). ri_IsOptional ing"
    by (simp add: ex_defs)
  show ?thesis
    using h scoreRecipe_no_required [OF h, of Map.empty exSubs "- 3"]
    by (simp add: list_all_iff)
qed

text \<open>
  C6. For every maxMissing that is not negative, canMake is exactly
  \<open>len(missingIngredients) <= maxMissing\<close>.
\<close>

theorem scoreRecipe_canMake_iff:
  assumes "0 \<le> maxMissing"
  shows "mr_CanMake (scoreRecipe recipe pantry subs maxMissing) =
         (int (length (mr_MissingIngredients (scoreRecipe recipe pantry subs maxMissing)))
            \<le> maxMissing)"
proof (cases "requiredOf (rc_Ingredients recipe) = []")
  case True
  with assms show ?thesis by (simp add: scoreRecipe_def)
next
  case False
  then show ?thesis by (simp add: scoreRecipe_canMake)
qed

theorem scoreRecipe_canMake_iff_witness:
  "(0::int) \<le> 1 \<and> mr_CanMake (scoreRecipe exBread exPantry exSubs 1) \<and>
   int (length (mr_MissingIngredients (scoreRecipe exBread exPantry exSubs 1))) \<le> 1 \<and>
   \<not> mr_CanMake (scoreRecipe exBread exPantry exSubs 0)"
proof -
  have m: "length (mr_MissingIngredients (scoreRecipe exBread exPantry exSubs k)) = 1" for k
    by (simp add: scoreRecipe_missing requiredOf_filter isRequired_def covered_def
        hasSubstitute_def ex_defs)
  show ?thesis
    using scoreRecipe_canMake_iff [of 1 exBread exPantry exSubs]
      scoreRecipe_canMake_iff [of 0 exBread exPantry exSubs]
    by (simp add: m)
qed

section \<open>Substitutes\<close>

lemma hasSubstitute_ids:
  "hasSubstitute pantry subs k =
     (\<exists>sid \<in> set (map sub_SubstituteID (subsFor subs k)). inPantry pantry sid)"
  by (simp add: hasSubstitute_def)

lemma covered_cong_ids:
  assumes "\<forall>k. map sub_SubstituteID (subsFor subs' k) = map sub_SubstituteID (subsFor subs k)"
  shows "covered pantry subs' = covered pantry subs"
proof (rule ext)
  fix ing
  from assms show "covered pantry subs' ing = covered pantry subs ing"
    unfolding covered_def hasSubstitute_ids by simp
qed

lemma scoreRecipe_cong_ids:
  assumes "\<forall>k. map sub_SubstituteID (subsFor subs' k) = map sub_SubstituteID (subsFor subs k)"
  shows "scoreRecipe recipe pantry subs' maxMissing = scoreRecipe recipe pantry subs maxMissing"
  by (simp add: scoreRecipe_def Let_def scoreLoop_eq covered_cong_ids [OF assms])

lemma scanSubs_hit:
  assumes "inPantry pantry (sub_SubstituteID s)"
  shows "scanSubs pantry (pre @ s # post) m = (m + 1, True)"
  using assms by (simp add: scanSubs_eq)

lemma covered_not_missing:
  assumes "covered pantry subs ing"
  shows "ri_IngredientID ing \<notin>
         mi_IngredientID ` set (mr_MissingIngredients (scoreRecipe recipe pantry subs maxMissing))"
proof
  assume "ri_IngredientID ing \<in>
          mi_IngredientID ` set (mr_MissingIngredients (scoreRecipe recipe pantry subs maxMissing))"
  then obtain j where j: "\<not> covered pantry subs j" "ri_IngredientID j = ri_IngredientID ing"
    by (auto simp: scoreRecipe_missing toMissing_def)
  with assms show False
    by (simp add: covered_def hasSubstitute_def)
qed

lemma scoreLoop_step_sub:
  assumes "\<not> inPantry pantry (ri_IngredientID ing)"
    and "s \<in> set (subsFor subs (ri_IngredientID ing))"
    and "inPantry pantry (sub_SubstituteID s)"
  shows "scoreLoop pantry subs (ing # rest) (missing, matched) =
         scoreLoop pantry subs rest (missing, matched + 1)"
proof -
  from assms(2,3) have "\<exists>t \<in> set (subsFor subs (ri_IngredientID ing)).
      inPantry pantry (sub_SubstituteID t)" by blast
  then have "scanSubs pantry (subsFor subs (ri_IngredientID ing)) matched = (matched + 1, True)"
    by (simp add: scanSubs_eq)
  with assms(1) show ?thesis by simp
qed

text \<open>
  C4. A required ingredient X that is not in the pantry set, with a substitute S in X's
  entry of the substitute map whose substituteId is in the pantry set, is not listed in
  missingIngredients and is counted as matched: the loop step for X adds one to
  \<open>matched\<close> and appends nothing. The scan returns at the first substitute found,
  whatever follows it in the list, and a substitute map with the same substitute ids
  (other ratio, notes, ingredient ids) gives the same result.
\<close>

theorem scoreRecipe_substitute_covers:
  assumes "ing \<in> set (rc_Ingredients recipe)" and "\<not> ri_IsOptional ing"
    and "\<not> inPantry pantry (ri_IngredientID ing)"
    and "s \<in> set (subsFor subs (ri_IngredientID ing))"
    and "inPantry pantry (sub_SubstituteID s)"
  shows "ri_IngredientID ing \<notin>
           mi_IngredientID ` set (mr_MissingIngredients (scoreRecipe recipe pantry subs maxMissing)) \<and>
         scoreLoop pantry subs (ing # rest) (missing, matched) =
           scoreLoop pantry subs rest (missing, matched + 1) \<and>
         scanSubs pantry (pre @ s # post) m = (m + 1, True) \<and>
         ((\<forall>k. map sub_SubstituteID (subsFor subs' k) = map sub_SubstituteID (subsFor subs k)) \<longrightarrow>
            scoreRecipe recipe pantry subs' maxMissing = scoreRecipe recipe pantry subs maxMissing)"
proof -
  from assms(4,5) have "covered pantry subs ing"
    by (auto simp: covered_def hasSubstitute_def)
  then show ?thesis
    using scoreLoop_step_sub [OF assms(3,4,5)] scanSubs_hit [OF assms(5)]
    by (simp add: covered_not_missing scoreRecipe_cong_ids)
qed

lemma exSubs2_ids:
  "\<forall>k. map sub_SubstituteID (subsFor exSubs2 k) = map sub_SubstituteID (subsFor exSubs k)"
  by (simp add: subsFor_def exSubs2_def exSubs_def)

theorem scoreRecipe_substitute_covers_witness:
  "''butter'' \<notin> mi_IngredientID ` set (mr_MissingIngredients (scoreRecipe exBread exPantry exSubs 0)) \<and>
   scoreLoop exPantry exSubs [ingredient ''butter'' 50 ''g'' False] ([], 1) = ([], 2) \<and>
   scanSubs exPantry exButterSubs 0 = (1, True) \<and>
   scoreRecipe exBread exPantry exSubs2 0 = scoreRecipe exBread exPantry exSubs 0 \<and>
   exSubs2 \<noteq> exSubs"
proof -
  let ?ing = "ingredient ''butter'' 50 ''g'' False"
  let ?s = "substitute ''butter'' ''margarine'' 1 ''salted''"
  have a: "?ing \<in> set (rc_Ingredients exBread)" by (simp add: exBread_def recipeOf_def)
  have b: "\<not> ri_IsOptional ?ing" by (simp add: ingredient_def)
  have c: "\<not> inPantry exPantry (ri_IngredientID ?ing)" by (simp add: ingredient_def exPantry_has)
  have d: "?s \<in> set (subsFor exSubs (ri_IngredientID ?ing))"
    by (simp add: ingredient_def exSubs_for exButterSubs_def)
  have e: "inPantry exPantry (sub_SubstituteID ?s)" by (simp add: substitute_def exPantry_has)
  have f: "exButterSubs = [substitute ''butter'' ''lard'' 1 []] @ ?s # [substitute ''butter'' ''flour'' 2 []]"
    by (simp add: exButterSubs_def)
  have g: "exSubs2 ''butter'' \<noteq> exSubs ''butter''"
    by (simp add: exSubs2_def exSubs_def exButterSubs_def substitute_def)
  then have g': "exSubs2 \<noteq> exSubs" by auto
  note t = scoreRecipe_substitute_covers [OF a b c d e, of 0 "[]" "[]" 1
      "[substitute ''butter'' ''lard'' 1 []]" "[substitute ''butter'' ''flour'' 2 []]" 0 exSubs2]
  show ?thesis
    using t exSubs2_ids g' unfolding f [symmetric] by (simp add: ingredient_def)
qed

end
